theory Spec2Isabelle
  imports Complex_Main "HOL-Library.Log_Nat"
begin

section \<open>Python floats\<close>

text \<open>
  The amounts, prices and rates of \<^verbatim>\<open>pipeline_btc.py\<close> are Python floats, that is
  IEEE-754 binary64 values. A finite value is the rational number it denotes; the two
  infinities and NaN are values of their own. The sign of zero is not kept: \<open>-0.0\<close> and
  \<open>0.0\<close> are both \<open>Finite 0\<close> (they compare equal in Python and no operation of the
  program tells them apart).
\<close>

datatype double = Finite rat | PosInf | NegInf | NaN

definition pow2 :: "int \<Rightarrow> rat" where
  "pow2 k = (if 0 \<le> k then 2 ^ nat k else 1 / 2 ^ nat (- k))"

text \<open>Rounding a rational to the nearest integer, a tie going to the even neighbour.\<close>

definition round_half_even :: "rat \<Rightarrow> int" where
  "round_half_even x =
     (let f = \<lfloor>x\<rfloor>; r = x - of_int f
      in if r < 1 / 2 then f
         else if 1 / 2 < r then f + 1
         else if even f then f else f + 1)"

text \<open>The binary exponent of a positive rational: \<open>2 ^ ilog2 x \<le> x < 2 ^ (ilog2 x + 1)\<close>.\<close>

definition ilog2 :: "rat \<Rightarrow> int" where
  "ilog2 x =
     (let (p, q) = quotient_of x; d = bitlen p - bitlen q
      in if pow2 d \<le> x then d else d - 1)"

text \<open>
  Rounding a rational to binary64, round-to-nearest with ties to even: 53 significant
  bits, the spacing never below \<open>2 ^ - 1074\<close> (subnormals), overflow to an infinity
  once the rounded value reaches \<open>2 ^ 1024\<close>.
\<close>

definition to_double :: "rat \<Rightarrow> double" where
  "to_double x =
     (if x = 0 then Finite 0
      else let q = max (ilog2 \<bar>x\<bar> - 52) (- 1074);
               m = round_half_even (x / pow2 q)
           in if 1024 < bitlen \<bar>m\<bar> + q then (if 0 < m then PosInf else NegInf)
              else Finite (of_int m * pow2 q))"

text \<open>\<^verbatim>\<open>a * b\<close> on floats.\<close>

fun fmul :: "double \<Rightarrow> double \<Rightarrow> double" where
  "fmul (Finite x) (Finite y) = to_double (x * y)"
| "fmul NaN _ = NaN"
| "fmul _ NaN = NaN"
| "fmul (Finite x) PosInf = (if x = 0 then NaN else if 0 < x then PosInf else NegInf)"
| "fmul (Finite x) NegInf = (if x = 0 then NaN else if 0 < x then NegInf else PosInf)"
| "fmul PosInf (Finite y) = (if y = 0 then NaN else if 0 < y then PosInf else NegInf)"
| "fmul NegInf (Finite y) = (if y = 0 then NaN else if 0 < y then NegInf else PosInf)"
| "fmul PosInf PosInf = PosInf"
| "fmul PosInf NegInf = NegInf"
| "fmul NegInf PosInf = NegInf"
| "fmul NegInf NegInf = PosInf"

text \<open>\<^verbatim>\<open>a + b\<close> on floats.\<close>

fun fadd :: "double \<Rightarrow> double \<Rightarrow> double" where
  "fadd (Finite x) (Finite y) = to_double (x + y)"
| "fadd NaN _ = NaN"
| "fadd _ NaN = NaN"
| "fadd PosInf NegInf = NaN"
| "fadd NegInf PosInf = NaN"
| "fadd PosInf _ = PosInf"
| "fadd _ PosInf = PosInf"
| "fadd NegInf _ = NegInf"
| "fadd _ NegInf = NegInf"

text \<open>\<^verbatim>\<open>a <= 0\<close>: false on NaN, as every comparison with NaN is.\<close>

fun le_zero :: "double \<Rightarrow> bool" where
  "le_zero (Finite x) = (x \<le> 0)"
| "le_zero NegInf = True"
| "le_zero PosInf = False"
| "le_zero NaN = False"

text \<open>
  \<^verbatim>\<open>round(a, 2)\<close>: CPython writes the exact value of the float with two decimals,
  correctly rounded (ties to even), and reads that decimal string back as the nearest
  float. Infinities and NaN round to themselves.
\<close>

fun py_round2 :: "double \<Rightarrow> double" where
  "py_round2 (Finite x) = to_double (of_int (round_half_even (x * 100)) / 100)"
| "py_round2 d = d"

text \<open>A decimal literal of the source text denotes the float nearest to it.\<close>

definition float_literal :: "rat \<Rightarrow> double" where
  "float_literal x = to_double x"

text \<open>\<^verbatim>\<open>int(t)\<close> on a finite float: truncation towards zero.\<close>

definition py_int :: "rat \<Rightarrow> int" where
  "py_int t = (if 0 \<le> t then \<lfloor>t\<rfloor> else \<lceil>t\<rceil>)"

section \<open>Data model\<close>

text \<open>The exception classes; each carries its message.\<close>

datatype error =
    ValidationError string
  | AuthError string
  | TransformError string
  | StorageError string
  | KeyError string
  | AttributeError string
  | UnboundLocalError string

record User =
  user_id :: string
  name :: string
  active :: bool

record Transaction =
  user_id :: string
  btc_amount :: double
  base_currency :: string
  btc_price_in_base :: "double option"
  subtotal_base :: "double option"
  commission_usd :: double
  commission_base :: "double option"
  total_base :: "double option"
  ts_epoch :: int

text \<open>
  The class body of \<^verbatim>\<open>Transaction\<close> is evaluated once, when the module is loaded:
  the default of \<^verbatim>\<open>ts_epoch\<close> is the value of \<^verbatim>\<open>int(time.time())\<close> at that
  moment, and the dataclass keeps it. \<open>class_time\<close> is the reading of the clock then.
\<close>

definition ts_epoch_default :: "rat \<Rightarrow> int" where
  "ts_epoch_default class_time = py_int class_time"

text \<open>
  \<^verbatim>\<open>Transaction(user_id=..., btc_amount=..., base_currency=...)\<close>, called when the
  clock reads \<open>now\<close>, in a module loaded when it read \<open>class_time\<close>. The generated
  \<^verbatim>\<open>__init__\<close> does not read the clock.
\<close>

definition new_Transaction :: "rat \<Rightarrow> rat \<Rightarrow> string \<Rightarrow> double \<Rightarrow> string \<Rightarrow> Transaction" where
  "new_Transaction class_time now uid amount currency =
     \<lparr> Transaction.user_id = uid, btc_amount = amount, base_currency = currency,
       btc_price_in_base = None, subtotal_base = None,
       commission_usd = Finite 5,
       commission_base = None, total_base = None,
       ts_epoch = ts_epoch_default class_time \<rparr>"

text \<open>
  Transactions are mutable objects: the caller of \<^verbatim>\<open>Pipeline.run\<close> and the
  context dictionary hold the same object, and the stages update it in place. The
  objects live in a store; a reference names one of them.
\<close>

type_synonym ref = nat

text \<open>The values a context dictionary holds (\<^verbatim>\<open>Dict[str, Any]\<close>).\<close>

datatype pyval = TransactionRef ref | UserVal User | StrVal string

text \<open>
  A row of the table \<^verbatim>\<open>transactions\<close> without its \<^verbatim>\<open>id\<close>: the nine values
  bound by the \<^verbatim>\<open>INSERT\<close>. The \<^verbatim>\<open>id\<close> column is \<^verbatim>\<open>AUTOINCREMENT\<close>; a table is
  the list of its rows in the order of insertion.
\<close>

type_synonym row =
  "string \<times> double \<times> string \<times> double option \<times> double option \<times> double \<times> double option
     \<times> double option \<times> int"

text \<open>
  What the database file at a path does when it is next used: it works, or
  \<^verbatim>\<open>sqlite3.connect\<close> raises, or \<^verbatim>\<open>execute\<close> or \<^verbatim>\<open>commit\<close> raises a
  \<^verbatim>\<open>sqlite3.DatabaseError\<close> with the given text.
\<close>

datatype db_status = Healthy | ConnectFails string | WriteFails string

record world =
  ctx :: "string \<rightharpoonup> pyval"
  heap :: "ref \<Rightarrow> Transaction"
  db :: "string \<Rightarrow> row list"
  db_status :: "string \<Rightarrow> db_status"

text \<open>
  A call either returns or raises; in both cases the objects it has mutated stay
  mutated, so both outcomes carry the world they leave behind.
\<close>

datatype outcome = Return world | Raise error world

text \<open>\<^verbatim>\<open>Filter\<close> is a protocol: anything with a \<^verbatim>\<open>process\<close> method.\<close>

type_synonym Filter = "world \<Rightarrow> outcome"

section \<open>The rate provider\<close>

text \<open>\<^verbatim>\<open>RateProvider\<close> is a protocol with two methods; a lookup returns or raises.\<close>

record RateProvider =
  get_btc_price :: "string \<Rightarrow> error + double"
  usd_to :: "string \<Rightarrow> error + double"

definition btc_table :: "(string \<times> double) list" where
  "btc_table =
     [(''USD'', float_literal 65000), (''EUR'', float_literal 61000),
      (''GBP'', float_literal 53000)]"

definition fx_usd_table :: "(string \<times> double) list" where
  "fx_usd_table =
     [(''USD'', float_literal 1), (''EUR'', float_literal (93 / 100)),
      (''GBP'', float_literal (80 / 100))]"

definition FixedRateProvider :: RateProvider where
  "FixedRateProvider =
     \<lparr> get_btc_price = (\<lambda>currency.
         case map_of btc_table currency of
           None \<Rightarrow> Inl (TransformError (''Moneda no soportada para precio BTC: '' @ currency))
         | Some price \<Rightarrow> Inr price),
       usd_to = (\<lambda>currency.
         case map_of fx_usd_table currency of
           None \<Rightarrow> Inl (TransformError (''Moneda no soportada para FX: '' @ currency))
         | Some fx \<Rightarrow> Inr fx) \<rparr>"

section \<open>The stages\<close>

text \<open>
  \<^verbatim>\<open>tx: Transaction = context["transaction"]\<close>, the first line of every stage.
  A missing key raises \<^verbatim>\<open>KeyError\<close>. \<^verbatim>\<open>Pipeline.run\<close> is the only writer of the key
  and binds it to a transaction, as the annotation says; for a value of another class
  the first attribute access fails.
\<close>

definition context_transaction :: "world \<Rightarrow> error + ref" where
  "context_transaction w =
     (case ctx w ''transaction'' of
        None \<Rightarrow> Inl (KeyError ''transaction'')
      | Some (TransactionRef a) \<Rightarrow> Inr a
      | Some _ \<Rightarrow> Inl (AttributeError ''transaction''))"

definition ValidationFilter_process :: Filter where
  "ValidationFilter_process w =
     (case context_transaction w of
        Inl e \<Rightarrow> Raise e w
      | Inr a \<Rightarrow>
          let tx = heap w a in
          if Transaction.user_id tx = [] then
            Raise (ValidationError (''Falta user_id v'' @ [CHR 0xE1] @ ''lido.'')) w
          else if le_zero (btc_amount tx) then
            Raise (ValidationError (''btc_amount debe ser num'' @ [CHR 0xE9] @ ''rico y > 0.'')) w
          else if base_currency tx \<notin> set [''USD'', ''EUR'', ''GBP''] then
            Raise (ValidationError ''base_currency debe ser USD, EUR o GBP.'') w
          else Return w)"

definition AuthFilter_process :: "(string \<rightharpoonup> User) \<Rightarrow> Filter" where
  "AuthFilter_process users w =
     (case context_transaction w of
        Inl e \<Rightarrow> Raise e w
      | Inr a \<Rightarrow>
          let tx = heap w a in
          (case users (Transaction.user_id tx) of
             None \<Rightarrow>
               Raise (AuthError (''Usuario '' @ Transaction.user_id tx @ '' no existe.'')) w
           | Some user \<Rightarrow>
               if \<not> active user then
                 Raise (AuthError (''Usuario '' @ Transaction.user_id tx
                          @ '' est'' @ [CHR 0xE1] @ '' inactivo.'')) w
               else Return (w\<lparr>ctx := (ctx w)(''user'' \<mapsto> UserVal user)\<rparr>)))"

definition TransformFilter_process :: "RateProvider \<Rightarrow> Filter" where
  "TransformFilter_process rates w =
     (case context_transaction w of
        Inl e \<Rightarrow> Raise e w
      | Inr a \<Rightarrow>
          let tx = heap w a in
          (case get_btc_price rates (base_currency tx) of
             Inl e \<Rightarrow> Raise e w
           | Inr price \<Rightarrow>
               let tx = tx\<lparr>btc_price_in_base := Some price\<rparr>;
                   tx = tx\<lparr>subtotal_base := Some (py_round2 (fmul price (btc_amount tx)))\<rparr>
               in Return (w\<lparr>heap := (heap w)(a := tx)\<rparr>)))"

definition FeeFilter_process :: "RateProvider \<Rightarrow> Filter" where
  "FeeFilter_process rates w =
     (case context_transaction w of
        Inl e \<Rightarrow> Raise e w
      | Inr a \<Rightarrow>
          let tx = heap w a in
          (case subtotal_base tx of
             None \<Rightarrow>
               Raise (TransformError ''Falta subtotal_base; ejecute TransformFilter antes.'') w
           | Some subtotal \<Rightarrow>
               (case usd_to rates (base_currency tx) of
                  Inl e \<Rightarrow> Raise e w
                | Inr fx \<Rightarrow>
                    let commission = py_round2 (fmul (commission_usd tx) fx);
                        tx = tx\<lparr>commission_base := Some commission\<rparr>;
                        tx = tx\<lparr>total_base := Some (py_round2 (fadd subtotal commission))\<rparr>
                    in Return (w\<lparr>heap := (heap w)(a := tx)\<rparr>))))"

definition row_of :: "Transaction \<Rightarrow> row" where
  "row_of tx =
     (Transaction.user_id tx, btc_amount tx, base_currency tx,
      btc_price_in_base tx, subtotal_base tx,
      commission_usd tx, commission_base tx, total_base tx, ts_epoch tx)"

text \<open>
  \<^verbatim>\<open>StorageFilter.process\<close>. When \<^verbatim>\<open>sqlite3.connect\<close> itself raises, the handler
  raises \<^verbatim>\<open>StorageError\<close>, and then the \<^verbatim>\<open>finally\<close> clause calls
  \<^verbatim>\<open>conn.close()\<close> on a variable that was never bound: the exception that leaves
  the method is \<^verbatim>\<open>UnboundLocalError\<close>. When \<^verbatim>\<open>execute\<close> or \<^verbatim>\<open>commit\<close> raises,
  the connection is closed without a commit and nothing is stored.
\<close>

definition StorageFilter_process :: "string \<Rightarrow> Filter" where
  "StorageFilter_process db_path w =
     (case context_transaction w of
        Inl e \<Rightarrow> Raise e w
      | Inr a \<Rightarrow>
          let tx = heap w a;
              required = [subtotal_base tx, total_base tx, commission_base tx,
                          btc_price_in_base tx]
          in if list_ex (\<lambda>v. v = None) required then
               Raise (StorageError (''Transacci'' @ [CHR 0xF3]
                        @ ''n incompleta; verifique filtros previos.'')) w
             else
               (case db_status w db_path of
                  ConnectFails e \<Rightarrow> Raise (UnboundLocalError ''conn'') w
                | WriteFails e \<Rightarrow>
                    Raise (StorageError (''Error al guardar en SQLite: '' @ e)) w
                | Healthy \<Rightarrow>
                    Return (w\<lparr>db := (db w)(db_path := db w db_path @ [row_of tx]),
                              ctx := (ctx w)(''storage_result'' \<mapsto> StrVal ''ok'')\<rparr>)))"

section \<open>The pipeline\<close>

text \<open>
  The loop of \<^verbatim>\<open>Pipeline.run\<close>: \<^verbatim>\<open>for f in self.filters: context = f.process(context)\<close>.
  An exception leaves the loop at once.
\<close>

fun run_filters :: "Filter list \<Rightarrow> world \<Rightarrow> outcome" where
  "run_filters [] w = Return w"
| "run_filters (f # fs) w =
     (case f w of
        Raise e w' \<Rightarrow> Raise e w'
      | Return w' \<Rightarrow> run_filters fs w')"

text \<open>\<^verbatim>\<open>context = {"transaction": transaction}\<close>: a new dictionary, in the world \<open>w\<close>.\<close>

definition new_context :: "world \<Rightarrow> ref \<Rightarrow> world" where
  "new_context w transaction = w\<lparr>ctx := [''transaction'' \<mapsto> TransactionRef transaction]\<rparr>"

text \<open>
  \<^verbatim>\<open>Pipeline.run\<close>: the new dictionary, then the loop. The result \<open>Return w'\<close>
  stands for returning the dictionary \<open>ctx w'\<close>.
\<close>

definition Pipeline_run :: "Filter list \<Rightarrow> world \<Rightarrow> ref \<Rightarrow> outcome" where
  "Pipeline_run filters w transaction = run_filters filters (new_context w transaction)"

text \<open>
  The number of \<^verbatim>\<open>process\<close> calls the loop makes: what a call counter on the
  stages would show after the run.
\<close>

fun process_calls :: "Filter list \<Rightarrow> world \<Rightarrow> nat" where
  "process_calls [] w = 0"
| "process_calls (f # fs) w =
     (case f w of
        Raise e w' \<Rightarrow> 1
      | Return w' \<Rightarrow> 1 + process_calls fs w')"

section \<open>The program of \<^verbatim>\<open>main\<close>\<close>

definition mock_users_raw :: "User list" where
  "mock_users_raw =
     [\<lparr>User.user_id = ''u001'', name = ''Alice'', active = True\<rparr>,
      \<lparr>User.user_id = ''u002'', name = ''Bob'', active = True\<rparr>,
      \<lparr>User.user_id = ''u003'', name = ''Carol'', active = False\<rparr>]"

definition load_mock_users :: "string \<rightharpoonup> User" where
  "load_mock_users = foldl (\<lambda>m r. m(User.user_id r \<mapsto> r)) Map.empty mock_users_raw"

definition main_pipeline :: "Filter list" where
  "main_pipeline =
     [ValidationFilter_process,
      AuthFilter_process load_mock_users,
      TransformFilter_process FixedRateProvider,
      FeeFilter_process FixedRateProvider,
      StorageFilter_process ''transactions.db'']"

text \<open>
  A world to run examples in: every reference holds the transaction \<open>tx\<close>, no
  dictionary exists yet, every database is empty and works.
\<close>

definition example_world :: "Transaction \<Rightarrow> world" where
  "example_world tx =
     \<lparr> ctx = Map.empty, heap = (\<lambda>a. tx), db = (\<lambda>p. []), db_status = (\<lambda>p. Healthy) \<rparr>"

section \<open>Facts about the float arithmetic\<close>

text \<open>
  The rounding functions do what their names say: \<open>round_half_even\<close> is within one
  half of its argument, \<open>ilog2\<close> is the binary exponent, and a finite result of
  \<open>to_double\<close> is within half a unit in the last place of the number rounded.
\<close>

lemma pow2_powi: "pow2 k = 2 powi k"
  by (simp add: pow2_def power_int_def inverse_eq_divide power_one_over)

lemma pow2_pos: "0 < pow2 k"
  by (simp add: pow2_powi)

lemma pow2_add: "pow2 (a + b) = pow2 a * pow2 b"
  by (simp add: pow2_powi power_int_add)

lemma round_half_even_nearest: "\<bar>of_int (round_half_even x) - x\<bar> \<le> 1 / 2"
proof -
  have "of_int \<lfloor>x\<rfloor> \<le> x" "x < of_int \<lfloor>x\<rfloor> + 1" by linarith+
  then show ?thesis
    by (auto simp: round_half_even_def Let_def abs_le_iff)
qed

lemma bitlen_pow2_bounds:
  assumes "0 < n"
  shows "pow2 (bitlen n - 1) \<le> of_int n" and "of_int n < pow2 (bitlen n)"
proof -
  from bitlen_bounds [OF assms]
  have a: "2 ^ nat (bitlen n - 1) \<le> n" and b: "n < 2 ^ nat (bitlen n)" by simp_all
  have ge: "1 \<le> bitlen n" using assms by (simp add: bitlen_alt_def)
  have "(of_int (2 ^ nat (bitlen n - 1)) :: rat) \<le> of_int n"
    using a by (simp only: of_int_le_iff)
  then show "pow2 (bitlen n - 1) \<le> of_int n"
    using ge by (simp add: pow2_def)
  have "(of_int n :: rat) < of_int (2 ^ nat (bitlen n))"
    using b by (simp only: of_int_less_iff)
  then show "of_int n < pow2 (bitlen n)"
    using ge by (simp add: pow2_def)
qed

lemma ilog2_bounds:
  assumes "0 < x"
  shows "pow2 (ilog2 x) \<le> x \<and> x < pow2 (ilog2 x + 1)"
proof -
  obtain p q where pq: "quotient_of x = (p, q)" by (cases "quotient_of x")
  then have q: "0 < q" by (rule quotient_of_denom_pos)
  from pq have x: "x = of_int p / of_int q" by (rule quotient_of_div)
  with assms q have p: "0 < p" by (simp add: zero_less_divide_iff)
  let ?d = "bitlen p - bitlen q"
  have qr: "(0::rat) < of_int q" using q by simp
  have lo: "pow2 (?d - 1) \<le> x"
  proof -
    have "pow2 (?d - 1) * of_int q \<le> pow2 (?d - 1) * pow2 (bitlen q)"
      using bitlen_pow2_bounds(2) [OF q] pow2_pos [of "?d - 1"] by simp
    also have "\<dots> = pow2 (bitlen p - 1)"
      by (simp add: pow2_add [symmetric])
    also have "\<dots> \<le> of_int p" by (rule bitlen_pow2_bounds(1) [OF p])
    finally show ?thesis using qr by (simp add: x pos_le_divide_eq)
  qed
  have hi: "x < pow2 (?d + 1)"
  proof -
    have "of_int p < pow2 (bitlen p)" by (rule bitlen_pow2_bounds(2) [OF p])
    also have "\<dots> = pow2 (?d + 1) * pow2 (bitlen q - 1)"
      by (simp add: pow2_add [symmetric])
    also have "\<dots> \<le> pow2 (?d + 1) * of_int q"
      using bitlen_pow2_bounds(1) [OF q] pow2_pos [of "?d + 1"] by simp
    finally show ?thesis using qr by (simp add: x pos_divide_less_eq)
  qed
  show ?thesis
    using lo hi by (simp add: ilog2_def pq Let_def)
qed


lemma to_double_nearest:
  assumes "to_double x = Finite r"
  shows "\<bar>r - x\<bar> \<le> pow2 (max (ilog2 \<bar>x\<bar> - 52) (- 1074)) / 2"
proof (cases "x = 0")
  case True
  with assms show ?thesis
    using pow2_pos [of "max (ilog2 \<bar>x\<bar> - 52) (- 1074)"] by (simp add: to_double_def)
next
  case False
  let ?q = "max (ilog2 \<bar>x\<bar> - 52) (- 1074)"
  let ?m = "round_half_even (x / pow2 ?q)"
  from assms False have r: "r = of_int ?m * pow2 ?q"
    by (simp add: to_double_def Let_def split: if_splits)
  have pos: "0 < pow2 ?q" by (rule pow2_pos)
  have "r - x = (of_int ?m - x / pow2 ?q) * pow2 ?q"
    using pos by (simp add: r field_simps)
  then have "\<bar>r - x\<bar> = \<bar>of_int ?m - x / pow2 ?q\<bar> * pow2 ?q"
    using pos by (simp add: abs_mult)
  also have "\<dots> \<le> (1 / 2) * pow2 ?q"
    using round_half_even_nearest [of "x / pow2 ?q"] pos
    by (intro mult_right_mono) simp_all
  finally show ?thesis by simp
qed

section \<open>Facts about the loop and the stages\<close>

lemma new_context_simps:
  "ctx (new_context w t) = [''transaction'' \<mapsto> TransactionRef t]"
  "heap (new_context w t) = heap w"
  "db (new_context w t) = db w"
  "db_status (new_context w t) = db_status w"
  by (simp_all add: new_context_def)

lemma run_filters_append:
  "run_filters (xs @ ys) w =
     (case run_filters xs w of Raise e w' \<Rightarrow> Raise e w' | Return w' \<Rightarrow> run_filters ys w')"
  by (induction xs arbitrary: w) (auto split: outcome.splits)

lemma process_calls_append:
  "process_calls (xs @ ys) w =
     (case run_filters xs w of
        Raise e w' \<Rightarrow> process_calls xs w
      | Return w' \<Rightarrow> process_calls xs w + process_calls ys w')"
  by (induction xs arbitrary: w) (auto split: outcome.splits)

lemma process_calls_Return:
  "run_filters xs w = Return w' \<Longrightarrow> process_calls xs w = length xs"
  by (induction xs arbitrary: w) (auto split: outcome.splits)

lemma run_filters_Cons_Return:
  "run_filters (f # fs) w = Return w' \<longleftrightarrow> (\<exists>w1. f w = Return w1 \<and> run_filters fs w1 = Return w')"
  by (cases "f w") auto

lemma context_transaction_Inr:
  "context_transaction w = Inr a \<longleftrightarrow> ctx w ''transaction'' = Some (TransactionRef a)"
  by (auto simp: context_transaction_def split: option.splits pyval.splits)

lemma ValidationFilter_Return:
  "ValidationFilter_process w = Return w' \<Longrightarrow> w' = w"
  by (auto simp: ValidationFilter_process_def Let_def split: sum.splits if_splits)

lemma ValidationFilter_Raise:
  "ValidationFilter_process w = Raise e w' \<Longrightarrow> w' = w"
  by (auto simp: ValidationFilter_process_def Let_def split: sum.splits if_splits)

lemma AuthFilter_Return:
  "AuthFilter_process users w = Return w' \<Longrightarrow>
     \<exists>a u. ctx w ''transaction'' = Some (TransactionRef a)
         \<and> users (Transaction.user_id (heap w a)) = Some u \<and> active u
         \<and> w' = w\<lparr>ctx := (ctx w)(''user'' \<mapsto> UserVal u)\<rparr>"
  by (auto simp: AuthFilter_process_def Let_def context_transaction_Inr
           split: sum.splits if_splits option.splits)

lemma AuthFilter_Raise:
  "AuthFilter_process users w = Raise e w' \<Longrightarrow> w' = w"
  by (auto simp: AuthFilter_process_def Let_def split: sum.splits if_splits option.splits)

lemma TransformFilter_Return:
  "TransformFilter_process rates w = Return w' \<Longrightarrow>
     \<exists>a price. ctx w ''transaction'' = Some (TransactionRef a)
         \<and> get_btc_price rates (base_currency (heap w a)) = Inr price
         \<and> w' = w\<lparr>heap := (heap w)(a := (heap w a)
                  \<lparr>btc_price_in_base := Some price,
                   subtotal_base := Some (py_round2 (fmul price (btc_amount (heap w a))))\<rparr>)\<rparr>"
  by (auto simp: TransformFilter_process_def Let_def context_transaction_Inr
           split: sum.splits if_splits option.splits)

lemma TransformFilter_Raise:
  "TransformFilter_process rates w = Raise e w' \<Longrightarrow> w' = w"
  by (auto simp: TransformFilter_process_def Let_def split: sum.splits if_splits option.splits)

lemma FeeFilter_Return:
  "FeeFilter_process rates w = Return w' \<Longrightarrow>
     \<exists>a subtotal fx. ctx w ''transaction'' = Some (TransactionRef a)
         \<and> subtotal_base (heap w a) = Some subtotal
         \<and> usd_to rates (base_currency (heap w a)) = Inr fx
         \<and> w' = w\<lparr>heap := (heap w)(a := (heap w a)
                  \<lparr>commission_base := Some (py_round2 (fmul (commission_usd (heap w a)) fx)),
                   total_base := Some (py_round2 (fadd subtotal
                       (py_round2 (fmul (commission_usd (heap w a)) fx))))\<rparr>)\<rparr>"
  by (auto simp: FeeFilter_process_def Let_def context_transaction_Inr
           split: sum.splits if_splits option.splits)

lemma FeeFilter_Raise:
  "FeeFilter_process rates w = Raise e w' \<Longrightarrow> w' = w"
  by (auto simp: FeeFilter_process_def Let_def split: sum.splits if_splits option.splits)

lemma StorageFilter_Return:
  "StorageFilter_process p w = Return w' \<Longrightarrow>
     \<exists>a. ctx w ''transaction'' = Some (TransactionRef a)
         \<and> btc_price_in_base (heap w a) \<noteq> None \<and> subtotal_base (heap w a) \<noteq> None
         \<and> commission_base (heap w a) \<noteq> None \<and> total_base (heap w a) \<noteq> None
         \<and> db_status w p = Healthy
         \<and> w' = w\<lparr>db := (db w)(p := db w p @ [row_of (heap w a)]),
                    ctx := (ctx w)(''storage_result'' \<mapsto> StrVal ''ok'')\<rparr>"
  by (auto simp: StorageFilter_process_def Let_def context_transaction_Inr
           split: sum.splits if_splits option.splits db_status.splits)

lemma StorageFilter_Raise:
  "StorageFilter_process p w = Raise e w' \<Longrightarrow> w' = w"
  by (auto simp: StorageFilter_process_def Let_def split: sum.splits if_splits option.splits db_status.splits)

section \<open>The configured rates, users and the arithmetic of the two scenarios\<close>

lemma float_scenario_A:
  "py_round2 (fmul (float_literal 65000) (float_literal (1 / 100))) = float_literal 650"
  "py_round2 (fmul (Finite 5) (float_literal 1)) = float_literal 5"
  "py_round2 (fadd (float_literal 650) (float_literal 5)) = float_literal 655"
  "le_zero (float_literal (1 / 100)) = False"
  by code_simp+

lemma float_scenario_B:
  "py_round2 (fmul (float_literal 61000) (float_literal (5 / 100))) = float_literal 3050"
  "py_round2 (fmul (Finite 5) (float_literal (93 / 100))) = float_literal (465 / 100)"
  "py_round2 (fadd (float_literal 3050) (float_literal (465 / 100))) = float_literal (305465 / 100)"
  "le_zero (float_literal (5 / 100)) = False"
  by code_simp+

lemma FixedRateProvider_lookups:
  "get_btc_price FixedRateProvider ''USD'' = Inr (float_literal 65000)"
  "get_btc_price FixedRateProvider ''EUR'' = Inr (float_literal 61000)"
  "get_btc_price FixedRateProvider ''GBP'' = Inr (float_literal 53000)"
  "usd_to FixedRateProvider ''USD'' = Inr (float_literal 1)"
  "usd_to FixedRateProvider ''EUR'' = Inr (float_literal (93 / 100))"
  "usd_to FixedRateProvider ''GBP'' = Inr (float_literal (80 / 100))"
  by (simp_all add: FixedRateProvider_def btc_table_def fx_usd_table_def)

lemma load_mock_users_lookups:
  "load_mock_users ''u001'' = Some \<lparr>User.user_id = ''u001'', name = ''Alice'', active = True\<rparr>"
  "load_mock_users ''u002'' = Some \<lparr>User.user_id = ''u002'', name = ''Bob'', active = True\<rparr>"
  "load_mock_users ''u003'' = Some \<lparr>User.user_id = ''u003'', name = ''Carol'', active = False\<rparr>"
  "load_mock_users ''u999'' = None"
  by (simp_all add: load_mock_users_def mock_users_raw_def)

lemma scenario_A_run:
  assumes tx: "heap w t = new_Transaction c n ''u001'' (float_literal (1 / 100)) ''USD''"
      and ok: "db_status w ''transactions.db'' = Healthy"
  shows "\<exists>w'. Pipeline_run main_pipeline w t = Return w'
           \<and> heap w' t = (heap w t)
                \<lparr>btc_price_in_base := Some (float_literal 65000),
                 subtotal_base := Some (float_literal 650),
                 commission_base := Some (float_literal 5),
                 total_base := Some (float_literal 655)\<rparr>
           \<and> ctx w' ''storage_result'' = Some (StrVal ''ok'')"
  using tx ok float_scenario_A
  by (simp add: Pipeline_run_def main_pipeline_def new_context_def
        ValidationFilter_process_def AuthFilter_process_def TransformFilter_process_def
        FeeFilter_process_def StorageFilter_process_def context_transaction_def Let_def
        new_Transaction_def FixedRateProvider_lookups load_mock_users_lookups)

lemma scenario_B_run:
  assumes tx: "heap w t = new_Transaction c n ''u002'' (float_literal (5 / 100)) ''EUR''"
      and ok: "db_status w ''transactions.db'' = Healthy"
  shows "\<exists>w'. Pipeline_run main_pipeline w t = Return w'
           \<and> heap w' t = (heap w t)
                \<lparr>btc_price_in_base := Some (float_literal 61000),
                 subtotal_base := Some (float_literal 3050),
                 commission_base := Some (float_literal (465 / 100)),
                 total_base := Some (float_literal (305465 / 100))\<rparr>
           \<and> ctx w' ''storage_result'' = Some (StrVal ''ok'')"
  using tx ok float_scenario_B
  by (simp add: Pipeline_run_def main_pipeline_def new_context_def
        ValidationFilter_process_def AuthFilter_process_def TransformFilter_process_def
        FeeFilter_process_def StorageFilter_process_def context_transaction_def Let_def
        new_Transaction_def FixedRateProvider_lookups load_mock_users_lookups)

lemma example_world_simps:
  "heap (example_world tx) a = tx"
  "db (example_world tx) p = []"
  "db_status (example_world tx) p = Healthy"
  "ctx (example_world tx) = Map.empty"
  by (simp_all add: example_world_def)

lemma TransformFilter_twice:
  assumes "TransformFilter_process rates w = Return w1"
  shows "TransformFilter_process rates w1 = Return w1"
proof -
  from TransformFilter_Return [OF assms] obtain a price where
    c: "ctx w ''transaction'' = Some (TransactionRef a)" and
    p: "get_btc_price rates (base_currency (heap w a)) = Inr price" and
    w1: "w1 = w\<lparr>heap := (heap w)(a := (heap w a)
                  \<lparr>btc_price_in_base := Some price,
                   subtotal_base := Some (py_round2 (fmul price (btc_amount (heap w a))))\<rparr>)\<rparr>"
    by blast
  show ?thesis
    using c p by (simp add: w1 TransformFilter_process_def context_transaction_def Let_def)
qed

lemma FixedRateProvider_supported:
  assumes "c \<in> {''USD'', ''EUR'', ''GBP''}"
  shows "\<exists>price fx. get_btc_price FixedRateProvider c = Inr price
                 \<and> usd_to FixedRateProvider c = Inr fx"
  using assms by (auto simp: FixedRateProvider_lookups)

lemma stage_keeps_transaction:
  assumes "ctx w ''transaction'' = Some (TransactionRef a)"
      and "f \<in> {ValidationFilter_process, AuthFilter_process users,
                TransformFilter_process rates, FeeFilter_process rates',
                StorageFilter_process db_path}"
      and "f w = Return w'"
  shows "ctx w' ''transaction'' = Some (TransactionRef a)"
  using assms
  by (auto dest: ValidationFilter_Return AuthFilter_Return TransformFilter_Return
        FeeFilter_Return StorageFilter_Return)

lemma run_filters_keeps_transaction:
  assumes "set fs \<subseteq> {ValidationFilter_process, AuthFilter_process users,
                TransformFilter_process rates, FeeFilter_process rates',
                StorageFilter_process db_path}"
      and "ctx w ''transaction'' = Some (TransactionRef a)"
      and "run_filters fs w = Return w'"
  shows "ctx w' ''transaction'' = Some (TransactionRef a)"
  using assms
proof (induction fs arbitrary: w)
  case Nil
  then show ?case by simp
next
  case (Cons f fs)
  from Cons.prems(3) obtain w1 where
    f: "f w = Return w1" and r: "run_filters fs w1 = Return w'"
    unfolding run_filters_Cons_Return by blast
  from Cons.prems(1) have m: "f \<in> {ValidationFilter_process, AuthFilter_process users,
                TransformFilter_process rates, FeeFilter_process rates',
                StorageFilter_process db_path}" by simp
  have "ctx w1 ''transaction'' = Some (TransactionRef a)"
    by (rule stage_keeps_transaction [OF Cons.prems(2) m f])
  moreover from Cons.prems(1) have "set fs \<subseteq> {ValidationFilter_process, AuthFilter_process users,
                TransformFilter_process rates, FeeFilter_process rates',
                StorageFilter_process db_path}" by simp
  ultimately show ?case using Cons.IH r by blast
qed

lemma ValidationFilter_Return_valid:
  assumes "ValidationFilter_process w = Return w'"
      and "ctx w ''transaction'' = Some (TransactionRef a)"
  shows "Transaction.user_id (heap w a) \<noteq> [] \<and> \<not> le_zero (btc_amount (heap w a))
           \<and> base_currency (heap w a) \<in> {''USD'', ''EUR'', ''GBP''}"
  using assms
  by (auto simp: ValidationFilter_process_def context_transaction_def Let_def split: if_splits)

lemma ValidationFilter_no_TransformError:
  "ValidationFilter_process w \<noteq> Raise (TransformError m) w'"
  by (auto simp: ValidationFilter_process_def context_transaction_def Let_def
           split: option.splits pyval.splits)

lemma AuthFilter_no_TransformError:
  "AuthFilter_process users w \<noteq> Raise (TransformError m) w'"
  by (auto simp: AuthFilter_process_def context_transaction_def Let_def
           split: option.splits pyval.splits)

lemma StorageFilter_no_TransformError:
  "StorageFilter_process p w \<noteq> Raise (TransformError m) w'"
  by (auto simp: StorageFilter_process_def context_transaction_def Let_def
           split: option.splits pyval.splits db_status.splits)

lemma TransformFilter_Fixed_no_TransformError:
  assumes "ctx w ''transaction'' = Some (TransactionRef a)"
      and "base_currency (heap w a) \<in> {''USD'', ''EUR'', ''GBP''}"
  shows "TransformFilter_process FixedRateProvider w \<noteq> Raise (TransformError m) w'"
  using assms FixedRateProvider_supported [OF assms(2)]
  by (auto simp: TransformFilter_process_def context_transaction_def Let_def)

lemma FeeFilter_Fixed_no_TransformError:
  assumes "ctx w ''transaction'' = Some (TransactionRef a)"
      and "base_currency (heap w a) \<in> {''USD'', ''EUR'', ''GBP''}"
      and "subtotal_base (heap w a) \<noteq> None"
  shows "FeeFilter_process FixedRateProvider w \<noteq> Raise (TransformError m) w'"
  using assms FixedRateProvider_supported [OF assms(2)]
  by (auto simp: FeeFilter_process_def context_transaction_def Let_def)

lemma FeeFilter_Fixed_Raise:
  assumes "ctx w ''transaction'' = Some (TransactionRef a)"
      and "base_currency (heap w a) \<in> {''USD'', ''EUR'', ''GBP''}"
      and "FeeFilter_process FixedRateProvider w = Raise e w'"
  shows "e = TransformError ''Falta subtotal_base; ejecute TransformFilter antes.''"
  using assms FixedRateProvider_supported [OF assms(2)]
  by (auto simp: FeeFilter_process_def context_transaction_def Let_def split: option.splits)

lemma main_shape_no_TransformError:
  "Pipeline_run
     [ValidationFilter_process, AuthFilter_process users,
      TransformFilter_process FixedRateProvider, FeeFilter_process FixedRateProvider,
      StorageFilter_process db_path] w t \<noteq> Raise (TransformError m) w'"
proof
  let ?w0 = "new_context w t"
  assume r: "Pipeline_run
     [ValidationFilter_process, AuthFilter_process users,
      TransformFilter_process FixedRateProvider, FeeFilter_process FixedRateProvider,
      StorageFilter_process db_path] w t = Raise (TransformError m) w'"
  have c0: "ctx ?w0 ''transaction'' = Some (TransactionRef t)"
    by (simp add: new_context_simps)
  show False
  proof (cases "ValidationFilter_process ?w0")
    case (Raise e w1)
    with r show False
      using ValidationFilter_no_TransformError [of ?w0 m w']
      by (simp add: Pipeline_run_def)
  next
    case v: (Return w1)
    have w1: "w1 = ?w0" using v by (rule ValidationFilter_Return)
    from ValidationFilter_Return_valid [OF v c0]
    have cur: "base_currency (heap ?w0 t) \<in> {''USD'', ''EUR'', ''GBP''}" by simp
    show False
    proof (cases "AuthFilter_process users ?w0")
      case (Raise e w2)
      with r v w1 show False
        using AuthFilter_no_TransformError [of users ?w0 m w']
        by (simp add: Pipeline_run_def)
    next
      case a: (Return w2)
      from AuthFilter_Return [OF a] c0
      have c2: "ctx w2 ''transaction'' = Some (TransactionRef t)" and h2: "heap w2 = heap ?w0"
        by auto
      from cur h2 have cur2: "base_currency (heap w2 t) \<in> {''USD'', ''EUR'', ''GBP''}" by simp
      show False
      proof (cases "TransformFilter_process FixedRateProvider w2")
        case (Raise e w3)
        with r v w1 a show False
          using TransformFilter_Fixed_no_TransformError [OF c2 cur2, of m w']
          by (simp add: Pipeline_run_def)
      next
        case tr: (Return w3)
        from TransformFilter_Return [OF tr] c2
        have c3: "ctx w3 ''transaction'' = Some (TransactionRef t)"
          and cur3: "base_currency (heap w3 t) = base_currency (heap w2 t)"
          and s3: "subtotal_base (heap w3 t) \<noteq> None"
          by auto
        from cur2 cur3 have cur3': "base_currency (heap w3 t) \<in> {''USD'', ''EUR'', ''GBP''}"
          by simp
        show False
        proof (cases "FeeFilter_process FixedRateProvider w3")
          case (Raise e w4)
          with r v w1 a tr show False
            using FeeFilter_Fixed_no_TransformError [OF c3 cur3' s3, of m w']
            by (simp add: Pipeline_run_def)
        next
          case fe: (Return w4)
          with r v w1 a tr show False
            using StorageFilter_no_TransformError [of db_path w4 m w']
            by (simp add: Pipeline_run_def split: outcome.splits)
        qed
      qed
    qed
  qed
qed

lemma scenario_A_write_fails:
  assumes tx: "heap w t = new_Transaction c n ''u001'' (float_literal (1 / 100)) ''USD''"
      and ko: "db_status w ''transactions.db'' = WriteFails msg"
  shows "\<exists>w1. Pipeline_run
                 [ValidationFilter_process, AuthFilter_process load_mock_users,
                  TransformFilter_process FixedRateProvider,
                  FeeFilter_process FixedRateProvider] w t = Return w1
           \<and> StorageFilter_process ''transactions.db'' w1
                = Raise (StorageError (''Error al guardar en SQLite: '' @ msg)) w1
           \<and> total_base (heap w1 t) = Some (float_literal 655)
           \<and> ctx w1 ''user''
                = Some (UserVal \<lparr>User.user_id = ''u001'', name = ''Alice'', active = True\<rparr>)
           \<and> db w1 = db w"
  using tx ko float_scenario_A
  by (simp add: Pipeline_run_def new_context_def
        ValidationFilter_process_def AuthFilter_process_def TransformFilter_process_def
        FeeFilter_process_def StorageFilter_process_def context_transaction_def Let_def
        new_Transaction_def FixedRateProvider_lookups load_mock_users_lookups)

section \<open>The claims\<close>

text \<open>
  C1. When \<^verbatim>\<open>Pipeline.run\<close> returns for the five stages in their order (whatever the
  user directory, the rate providers and the database path), the transaction's price,
  subtotal, commission and total are all set and the total is
  \<^verbatim>\<open>round(subtotal_base + commission_base, 2)\<close>. Equality is that of the stored
  values: the field holds the float that expression computes (Python's \<^verbatim>\<open>==\<close>
  answers False on two NaN values, which is what the fields hold for a NaN amount).
\<close>

theorem ordering_invariant:
  assumes "Pipeline_run
             [ValidationFilter_process, AuthFilter_process users,
              TransformFilter_process rates, FeeFilter_process rates',
              StorageFilter_process db_path] w t = Return w'"
  shows "\<exists>price subtotal commission total.
           btc_price_in_base (heap w' t) = Some price
         \<and> subtotal_base (heap w' t) = Some subtotal
         \<and> commission_base (heap w' t) = Some commission
         \<and> total_base (heap w' t) = Some total
         \<and> total = py_round2 (fadd subtotal commission)"
proof -
  let ?w0 = "new_context w t"
  from assms obtain w1 w2 w3 w4 where
    v: "ValidationFilter_process ?w0 = Return w1" and
    a: "AuthFilter_process users w1 = Return w2" and
    tr: "TransformFilter_process rates w2 = Return w3" and
    fe: "FeeFilter_process rates' w3 = Return w4" and
    st: "StorageFilter_process db_path w4 = Return w'"
    unfolding Pipeline_run_def run_filters_Cons_Return by auto
  have w1: "w1 = ?w0" using v by (rule ValidationFilter_Return)
  from AuthFilter_Return [OF a] w1 have c2: "ctx w2 ''transaction'' = Some (TransactionRef t)"
    by (auto simp: new_context_simps)
  from TransformFilter_Return [OF tr] c2 obtain price where
    w3: "w3 = w2\<lparr>heap := (heap w2)(t := (heap w2 t)
                  \<lparr>btc_price_in_base := Some price,
                   subtotal_base := Some (py_round2 (fmul price (btc_amount (heap w2 t))))\<rparr>)\<rparr>"
    by auto
  from FeeFilter_Return [OF fe] w3 c2 obtain subtotal fx where
    s3: "subtotal_base (heap w3 t) = Some subtotal" and
    w4: "w4 = w3\<lparr>heap := (heap w3)(t := (heap w3 t)
                  \<lparr>commission_base := Some (py_round2 (fmul (commission_usd (heap w3 t)) fx)),
                   total_base := Some (py_round2 (fadd subtotal
                       (py_round2 (fmul (commission_usd (heap w3 t)) fx))))\<rparr>)\<rparr>"
    by auto
  from StorageFilter_Return [OF st] have h': "heap w' = heap w4" by auto
  show ?thesis using s3 by (simp add: h' w4 w3)
qed

theorem ordering_invariant_witness:
  "\<exists>w'. Pipeline_run main_pipeline
          (example_world (new_Transaction 1000 2000 ''u001'' (float_literal (1 / 100)) ''USD'')) 0
          = Return w'
      \<and> (\<exists>price subtotal commission total.
           btc_price_in_base (heap w' 0) = Some price
         \<and> subtotal_base (heap w' 0) = Some subtotal
         \<and> commission_base (heap w' 0) = Some commission
         \<and> total_base (heap w' 0) = Some total
         \<and> total = py_round2 (fadd subtotal commission))"
proof -
  let ?w = "example_world (new_Transaction 1000 2000 ''u001'' (float_literal (1 / 100)) ''USD'')"
  from scenario_A_run [of ?w 0 1000 2000] obtain w' where
    r: "Pipeline_run main_pipeline ?w 0 = Return w'"
    by (auto simp: example_world_simps)
  from ordering_invariant [OF r [unfolded main_pipeline_def]] r show ?thesis by blast
qed

text \<open>
  C6. With the configured rates and the default commission of 5.00 USD, in the program
  of \<^verbatim>\<open>main\<close>: the transaction of user u001 with amount 0.01 in USD ends with
  subtotal 650.0, commission 5.0, total 655.0 and \<^verbatim>\<open>storage_result\<close> "ok"; the one of
  user u002 with amount 0.05 in EUR ends with subtotal 3050.0, commission 4.65 and
  total 3054.65. The database is taken to work.
\<close>

theorem scenarios:
  assumes "db_status w ''transactions.db'' = Healthy"
  shows "(heap w t = new_Transaction c n ''u001'' (float_literal (1 / 100)) ''USD'' \<longrightarrow>
           (\<exists>w'. Pipeline_run main_pipeline w t = Return w'
              \<and> subtotal_base (heap w' t) = Some (float_literal 650)
              \<and> commission_base (heap w' t) = Some (float_literal 5)
              \<and> total_base (heap w' t) = Some (float_literal 655)
              \<and> ctx w' ''storage_result'' = Some (StrVal ''ok'')))
       \<and> (heap w t = new_Transaction c n ''u002'' (float_literal (5 / 100)) ''EUR'' \<longrightarrow>
           (\<exists>w'. Pipeline_run main_pipeline w t = Return w'
              \<and> subtotal_base (heap w' t) = Some (float_literal 3050)
              \<and> commission_base (heap w' t) = Some (float_literal (465 / 100))
              \<and> total_base (heap w' t) = Some (float_literal (305465 / 100))))"
proof (intro conjI impI)
  assume tx: "heap w t = new_Transaction c n ''u001'' (float_literal (1 / 100)) ''USD''"
  from scenario_A_run [OF tx assms] obtain w' where
    "Pipeline_run main_pipeline w t = Return w'"
    "heap w' t = (heap w t)
                \<lparr>btc_price_in_base := Some (float_literal 65000),
                 subtotal_base := Some (float_literal 650),
                 commission_base := Some (float_literal 5),
                 total_base := Some (float_literal 655)\<rparr>"
    "ctx w' ''storage_result'' = Some (StrVal ''ok'')"
    by blast
  then show "\<exists>w'. Pipeline_run main_pipeline w t = Return w'
              \<and> subtotal_base (heap w' t) = Some (float_literal 650)
              \<and> commission_base (heap w' t) = Some (float_literal 5)
              \<and> total_base (heap w' t) = Some (float_literal 655)
              \<and> ctx w' ''storage_result'' = Some (StrVal ''ok'')"
    by simp
next
  assume tx: "heap w t = new_Transaction c n ''u002'' (float_literal (5 / 100)) ''EUR''"
  from scenario_B_run [OF tx assms] obtain w' where
    "Pipeline_run main_pipeline w t = Return w'"
    "heap w' t = (heap w t)
                \<lparr>btc_price_in_base := Some (float_literal 61000),
                 subtotal_base := Some (float_literal 3050),
                 commission_base := Some (float_literal (465 / 100)),
                 total_base := Some (float_literal (305465 / 100))\<rparr>"
    by blast
  then show "\<exists>w'. Pipeline_run main_pipeline w t = Return w'
              \<and> subtotal_base (heap w' t) = Some (float_literal 3050)
              \<and> commission_base (heap w' t) = Some (float_literal (465 / 100))
              \<and> total_base (heap w' t) = Some (float_literal (305465 / 100))"
    by simp
qed

theorem scenarios_witness:
  "(\<exists>w'. Pipeline_run main_pipeline
           (example_world (new_Transaction 1000 2000 ''u001'' (float_literal (1 / 100)) ''USD'')) 0
           = Return w'
        \<and> subtotal_base (heap w' 0) = Some (float_literal 650)
        \<and> commission_base (heap w' 0) = Some (float_literal 5)
        \<and> total_base (heap w' 0) = Some (float_literal 655)
        \<and> ctx w' ''storage_result'' = Some (StrVal ''ok''))
 \<and> (\<exists>w'. Pipeline_run main_pipeline
           (example_world (new_Transaction 1000 2000 ''u002'' (float_literal (5 / 100)) ''EUR'')) 0
           = Return w'
        \<and> subtotal_base (heap w' 0) = Some (float_literal 3050)
        \<and> commission_base (heap w' 0) = Some (float_literal (465 / 100))
        \<and> total_base (heap w' 0) = Some (float_literal (305465 / 100)))"
proof -
  let ?A = "new_Transaction 1000 2000 ''u001'' (float_literal (1 / 100)) ''USD''"
  let ?B = "new_Transaction 1000 2000 ''u002'' (float_literal (5 / 100)) ''EUR''"
  have ok: "db_status (example_world tx) ''transactions.db'' = Healthy" for tx
    by (simp add: example_world_simps)
  have a: "heap (example_world ?A) 0 = new_Transaction 1000 2000 ''u001'' (float_literal (1 / 100)) ''USD''"
    by (simp add: example_world_simps)
  have b: "heap (example_world ?B) 0 = new_Transaction 1000 2000 ''u002'' (float_literal (5 / 100)) ''EUR''"
    by (simp add: example_world_simps)
  from scenarios [OF ok, of ?A 0 1000 2000] a
       scenarios [OF ok, of ?B 0 1000 2000] b
  show ?thesis by blast
qed

text \<open>
  C2. In every run of \<^verbatim>\<open>Pipeline.run\<close>, whatever the stages are: when the stages
  \<open>pre\<close> return and the next stage \<open>f\<close> raises \<open>e\<close>, the run raises \<open>e\<close> to the
  caller, in the world \<open>f\<close> left behind, which holds every mutation \<open>pre\<close> and \<open>f\<close>
  made to the transaction and the dictionary; the stages \<open>post\<close> after \<open>f\<close> are not
  called (the loop makes \<open>length pre + 1\<close> calls) and the result does not depend on
  them. In particular, when the Validation stage fails at the head of a pipeline, the
  run raises its failure and the loop has made that one call: no other stage runs.
\<close>

theorem short_circuit:
  "(Pipeline_run pre w t = Return w1 \<and> f w1 = Raise e w2 \<longrightarrow>
      Pipeline_run (pre @ f # post) w t = Raise e w2
    \<and> process_calls (pre @ f # post) (new_context w t) = length pre + 1)
 \<and> (ValidationFilter_process (new_context w t) = Raise e' w3 \<longrightarrow>
      Pipeline_run (ValidationFilter_process # post') w t = Raise e' w3
    \<and> process_calls (ValidationFilter_process # post') (new_context w t) = 1)"
  by (simp add: Pipeline_run_def run_filters_append process_calls_append process_calls_Return)

theorem short_circuit_witness:
  "(\<exists>w2. Pipeline_run main_pipeline
            ((example_world (new_Transaction 1000 2000 ''u001'' (float_literal (1 / 100)) ''USD''))
               \<lparr>db_status := (\<lambda>p. WriteFails ''disk full'')\<rparr>) 0
          = Raise (StorageError ''Error al guardar en SQLite: disk full'') w2
       \<and> total_base (heap w2 0) = Some (float_literal 655)
       \<and> ctx w2 ''user''
            = Some (UserVal \<lparr>User.user_id = ''u001'', name = ''Alice'', active = True\<rparr>)
       \<and> db w2 ''transactions.db'' = [])
 \<and> process_calls main_pipeline
      (new_context
         ((example_world (new_Transaction 1000 2000 ''u001'' (float_literal (1 / 100)) ''USD''))
            \<lparr>db_status := (\<lambda>p. WriteFails ''disk full'')\<rparr>) 0) = 5
 \<and> Pipeline_run main_pipeline
      (example_world (new_Transaction 1000 2000 ''u001'' (Finite 0) ''USD'')) 0
    = Raise (ValidationError (''btc_amount debe ser num'' @ [CHR 0xE9] @ ''rico y > 0.''))
        (new_context (example_world (new_Transaction 1000 2000 ''u001'' (Finite 0) ''USD'')) 0)
 \<and> process_calls main_pipeline
      (new_context (example_world (new_Transaction 1000 2000 ''u001'' (Finite 0) ''USD'')) 0) = 1"
proof -
  let ?w = "(example_world (new_Transaction 1000 2000 ''u001'' (float_literal (1 / 100)) ''USD''))
               \<lparr>db_status := (\<lambda>p. WriteFails ''disk full'')\<rparr>"
  let ?v = "example_world (new_Transaction 1000 2000 ''u001'' (Finite 0) ''USD'')"
  let ?pre = "[ValidationFilter_process, AuthFilter_process load_mock_users,
               TransformFilter_process FixedRateProvider,
               FeeFilter_process FixedRateProvider]"
  let ?post = "[AuthFilter_process load_mock_users,
                TransformFilter_process FixedRateProvider,
                FeeFilter_process FixedRateProvider,
                StorageFilter_process ''transactions.db'']"
  have tx: "heap ?w 0 = new_Transaction 1000 2000 ''u001'' (float_literal (1 / 100)) ''USD''"
    by (simp add: example_world_def)
  have ko: "db_status ?w ''transactions.db'' = WriteFails ''disk full''"
    by simp
  have d: "db ?w ''transactions.db'' = []"
    by (simp add: example_world_def)
  from scenario_A_write_fails [OF tx ko] obtain w1 where
    r: "Pipeline_run ?pre ?w 0 = Return w1" and
    f: "StorageFilter_process ''transactions.db'' w1
          = Raise (StorageError (''Error al guardar en SQLite: '' @ ''disk full'')) w1" and
    k: "total_base (heap w1 0) = Some (float_literal 655)"
       "ctx w1 ''user''
          = Some (UserVal \<lparr>User.user_id = ''u001'', name = ''Alice'', active = True\<rparr>)"
       "db w1 = db ?w"
    by blast
  have v: "ValidationFilter_process (new_context ?v 0)
             = Raise (ValidationError (''btc_amount debe ser num'' @ [CHR 0xE9] @ ''rico y > 0.''))
                 (new_context ?v 0)"
    by (simp add: ValidationFilter_process_def context_transaction_def new_context_simps
          example_world_simps new_Transaction_def)
  from short_circuit [where f = "StorageFilter_process ''transactions.db''" and post = "[]"
                        and pre = ?pre and w = ?w and t = 0 and ?w1.0 = w1 and ?w2.0 = w1
                        and e = "StorageError (''Error al guardar en SQLite: '' @ ''disk full'')"]
       r f
  have a: "Pipeline_run (?pre @ [StorageFilter_process ''transactions.db'']) ?w 0
             = Raise (StorageError (''Error al guardar en SQLite: '' @ ''disk full'')) w1
         \<and> process_calls (?pre @ [StorageFilter_process ''transactions.db''])
               (new_context ?w 0) = length ?pre + 1"
    by blast
  from short_circuit [where w = ?v and t = 0 and post' = ?post and ?w3.0 = "new_context ?v 0"
                        and e' = "ValidationError (''btc_amount debe ser num'' @ [CHR 0xE9]
                                                     @ ''rico y > 0.'')"]
       v
  have b: "Pipeline_run (ValidationFilter_process # ?post) ?v 0
             = Raise (ValidationError (''btc_amount debe ser num'' @ [CHR 0xE9] @ ''rico y > 0.''))
                 (new_context ?v 0)
         \<and> process_calls (ValidationFilter_process # ?post) (new_context ?v 0) = 1"
    by blast
  from a b k d show ?thesis
    by (simp add: main_pipeline_def)
qed

text \<open>
  C3. A transaction with an empty user identifier, or an amount \<^verbatim>\<open><= 0\<close>, or a
  base currency outside USD, EUR, GBP makes every pipeline that starts with the
  Validation stage raise \<^verbatim>\<open>ValidationError\<close>; the message is that of the first
  failing check in the order user identifier, amount, currency; the store of
  transactions and the database are untouched, the dictionary holds the transaction
  only, and no other stage is called.
\<close>

theorem validation_gate:
  assumes "Transaction.user_id (heap w t) = [] \<or> le_zero (btc_amount (heap w t))
             \<or> base_currency (heap w t) \<notin> {''USD'', ''EUR'', ''GBP''}"
  shows "\<exists>w'. Pipeline_run (ValidationFilter_process # rest) w t =
           Raise (ValidationError
                    (if Transaction.user_id (heap w t) = []
                       then ''Falta user_id v'' @ [CHR 0xE1] @ ''lido.''
                     else if le_zero (btc_amount (heap w t))
                       then ''btc_amount debe ser num'' @ [CHR 0xE9] @ ''rico y > 0.''
                     else ''base_currency debe ser USD, EUR o GBP.'')) w'
           \<and> heap w' = heap w \<and> db w' = db w
           \<and> ctx w' = [''transaction'' \<mapsto> TransactionRef t]
           \<and> process_calls (ValidationFilter_process # rest) (new_context w t) = 1"
  using assms
  by (auto simp: Pipeline_run_def ValidationFilter_process_def context_transaction_def
        new_context_def Let_def)

theorem validation_gate_witness:
  "\<exists>w'. Pipeline_run main_pipeline
           (example_world (new_Transaction 1000 2000 [] (Finite 0) ''JPY'')) 0
         = Raise (ValidationError (''Falta user_id v'' @ [CHR 0xE1] @ ''lido.'')) w'
      \<and> heap w' = heap (example_world (new_Transaction 1000 2000 [] (Finite 0) ''JPY''))
      \<and> db w' = db (example_world (new_Transaction 1000 2000 [] (Finite 0) ''JPY''))
      \<and> ctx w' = [''transaction'' \<mapsto> TransactionRef 0]
      \<and> process_calls main_pipeline
           (new_context (example_world (new_Transaction 1000 2000 [] (Finite 0) ''JPY'')) 0) = 1"
proof -
  let ?w = "example_world (new_Transaction 1000 2000 [] (Finite 0) ''JPY'')"
  have h: "Transaction.user_id (heap ?w 0) = [] \<or> le_zero (btc_amount (heap ?w 0))
             \<or> base_currency (heap ?w 0) \<notin> {''USD'', ''EUR'', ''GBP''}"
    by (simp add: example_world_simps new_Transaction_def)
  have u: "Transaction.user_id (heap ?w 0) = []"
    by (simp add: example_world_simps new_Transaction_def)
  from validation_gate [OF h, of "tl main_pipeline"] u show ?thesis
    by (simp add: main_pipeline_def)
qed

text \<open>
  C4. For a transaction that passes Validation, in every pipeline that starts with
  the Validation and Authentication stages: a user identifier absent from the directory
  raises \<^verbatim>\<open>AuthError\<close> "Usuario ... no existe."; an inactive user raises
  \<^verbatim>\<open>AuthError\<close> "Usuario ... esta inactivo." (with the character 0xE1 for the accented a); in both
  cases the transaction is untouched (price, subtotal and total stay as they were,
  unset for a new transaction) and nothing is written to the database. For an active
  user the Authentication stage returns the dictionary with the user record added under
  the key "user".
\<close>

theorem auth_gate:
  assumes "Transaction.user_id (heap w t) \<noteq> []"
      and "\<not> le_zero (btc_amount (heap w t))"
      and "base_currency (heap w t) \<in> {''USD'', ''EUR'', ''GBP''}"
  shows "(users (Transaction.user_id (heap w t)) = None \<longrightarrow>
            (\<exists>w'. Pipeline_run (ValidationFilter_process # AuthFilter_process users # rest) w t
                    = Raise (AuthError (''Usuario '' @ Transaction.user_id (heap w t)
                                          @ '' no existe.'')) w'
                 \<and> heap w' = heap w \<and> db w' = db w))
       \<and> (\<forall>u. users (Transaction.user_id (heap w t)) = Some u \<and> \<not> active u \<longrightarrow>
            (\<exists>w'. Pipeline_run (ValidationFilter_process # AuthFilter_process users # rest) w t
                    = Raise (AuthError (''Usuario '' @ Transaction.user_id (heap w t)
                                          @ '' est'' @ [CHR 0xE1] @ '' inactivo.'')) w'
                 \<and> heap w' = heap w \<and> db w' = db w))
       \<and> (\<forall>u. users (Transaction.user_id (heap w t)) = Some u \<and> active u \<longrightarrow>
            AuthFilter_process users (new_context w t)
              = Return ((new_context w t)
                          \<lparr>ctx := [''transaction'' \<mapsto> TransactionRef t, ''user'' \<mapsto> UserVal u]\<rparr>))"
  using assms
  by (auto simp: Pipeline_run_def ValidationFilter_process_def AuthFilter_process_def
        context_transaction_def new_context_def Let_def)

theorem auth_gate_witness:
  "(\<exists>w'. Pipeline_run main_pipeline
           (example_world (new_Transaction 1000 2000 ''u999'' (float_literal (1 / 100)) ''USD'')) 0
          = Raise (AuthError ''Usuario u999 no existe.'') w'
       \<and> heap w' = heap (example_world
                          (new_Transaction 1000 2000 ''u999'' (float_literal (1 / 100)) ''USD''))
       \<and> db w' = db (example_world
                          (new_Transaction 1000 2000 ''u999'' (float_literal (1 / 100)) ''USD'')))
 \<and> (\<exists>w'. Pipeline_run main_pipeline
           (example_world (new_Transaction 1000 2000 ''u003'' (float_literal (1 / 100)) ''USD'')) 0
          = Raise (AuthError (''Usuario u003 est'' @ [CHR 0xE1] @ '' inactivo.'')) w'
       \<and> heap w' = heap (example_world
                          (new_Transaction 1000 2000 ''u003'' (float_literal (1 / 100)) ''USD''))
       \<and> db w' = db (example_world
                          (new_Transaction 1000 2000 ''u003'' (float_literal (1 / 100)) ''USD'')))
 \<and> AuthFilter_process load_mock_users
      (new_context (example_world
         (new_Transaction 1000 2000 ''u001'' (float_literal (1 / 100)) ''USD'')) 0)
    = Return ((new_context (example_world
         (new_Transaction 1000 2000 ''u001'' (float_literal (1 / 100)) ''USD'')) 0)
        \<lparr>ctx := [''transaction'' \<mapsto> TransactionRef 0,
                 ''user'' \<mapsto> UserVal \<lparr>User.user_id = ''u001'', name = ''Alice'', active = True\<rparr>]\<rparr>)"
proof -
  let ?w = "\<lambda>uid. example_world (new_Transaction 1000 2000 uid (float_literal (1 / 100)) ''USD'')"
  let ?rest = "[TransformFilter_process FixedRateProvider, FeeFilter_process FixedRateProvider,
                StorageFilter_process ''transactions.db'']"
  have v: "Transaction.user_id (heap (?w uid) 0) \<noteq> []" if "uid \<noteq> []" for uid
    using that by (simp add: example_world_simps new_Transaction_def)
  have p: "\<not> le_zero (btc_amount (heap (?w uid) 0))" for uid
    using float_scenario_A(4) by (simp add: example_world_simps new_Transaction_def)
  have c: "base_currency (heap (?w uid) 0) \<in> {''USD'', ''EUR'', ''GBP''}" for uid
    by (simp add: example_world_simps new_Transaction_def)
  have u: "Transaction.user_id (heap (?w uid) 0) = uid" for uid
    by (simp add: example_world_simps new_Transaction_def)
  from auth_gate [OF v p c, of "''u999''" load_mock_users ?rest]
       auth_gate [OF v p c, of "''u003''" load_mock_users ?rest]
       auth_gate [OF v p c, of "''u001''" load_mock_users ?rest]
  show ?thesis
    by (simp add: u main_pipeline_def load_mock_users_lookups)
qed

text \<open>
  C5. The Persistence stage raises \<^verbatim>\<open>StorageError\<close> "Transaccion incompleta; ..."
  whenever one of price, subtotal, commission, total is unset, and the Fee stage raises
  \<^verbatim>\<open>TransformError\<close> "Falta subtotal_base; ..." whenever the subtotal is unset; both
  leave the world as it was: nothing is written to the database, commission and total
  are not assigned.
\<close>

theorem incomplete_guards:
  assumes "ctx w ''transaction'' = Some (TransactionRef a)"
  shows "(btc_price_in_base (heap w a) = None \<or> subtotal_base (heap w a) = None
            \<or> commission_base (heap w a) = None \<or> total_base (heap w a) = None \<longrightarrow>
          StorageFilter_process db_path w
            = Raise (StorageError (''Transacci'' @ [CHR 0xF3]
                       @ ''n incompleta; verifique filtros previos.'')) w)
       \<and> (subtotal_base (heap w a) = None \<longrightarrow>
          FeeFilter_process rates w
            = Raise (TransformError ''Falta subtotal_base; ejecute TransformFilter antes.'') w)"
  using assms
  by (auto simp: StorageFilter_process_def FeeFilter_process_def context_transaction_def Let_def)

theorem incomplete_guards_witness:
  "StorageFilter_process ''transactions.db''
     (new_context (example_world (new_Transaction 1000 2000 ''u001'' (float_literal (1 / 100)) ''USD'')) 0)
     = Raise (StorageError (''Transacci'' @ [CHR 0xF3] @ ''n incompleta; verifique filtros previos.''))
         (new_context (example_world (new_Transaction 1000 2000 ''u001'' (float_literal (1 / 100)) ''USD'')) 0)
 \<and> FeeFilter_process FixedRateProvider
     (new_context (example_world (new_Transaction 1000 2000 ''u001'' (float_literal (1 / 100)) ''USD'')) 0)
     = Raise (TransformError ''Falta subtotal_base; ejecute TransformFilter antes.'')
         (new_context (example_world (new_Transaction 1000 2000 ''u001'' (float_literal (1 / 100)) ''USD'')) 0)"
proof -
  let ?w = "new_context (example_world (new_Transaction 1000 2000 ''u001'' (float_literal (1 / 100)) ''USD'')) 0"
  have c: "ctx ?w ''transaction'' = Some (TransactionRef 0)"
    by (simp add: new_context_simps)
  have n: "subtotal_base (heap ?w 0) = None"
    by (simp add: new_context_simps example_world_simps new_Transaction_def)
  from incomplete_guards [OF c, of "''transactions.db''" FixedRateProvider] n
  show ?thesis by simp
qed

text \<open>
  C7. The timestamp of a transaction is the value the clock had when the class body
  was evaluated, not the time of its construction: in a module loaded at clock 1000,
  the records constructed at clock 2000 and at clock 3000 both get 1000.
\<close>

theorem ts_epoch_shared_default:
  "ts_epoch (new_Transaction 1000 2000 ''u001'' (float_literal (1 / 100)) ''USD'') = 1000
 \<and> ts_epoch (new_Transaction 1000 3000 ''u002'' (float_literal (5 / 100)) ''EUR'') = 1000"
  by (simp add: new_Transaction_def ts_epoch_default_def py_int_def)

text \<open>
  C8. Each of the five stages, given a dictionary that holds the transaction under the
  key "transaction", returns a dictionary that still holds it there; so the dictionary
  returned by \<^verbatim>\<open>Pipeline.run\<close>, for any pipeline made of these stages, maps
  the key to the transaction the run was given.
\<close>

theorem transaction_key_kept:
  "(ctx w ''transaction'' = Some (TransactionRef a)
      \<and> f \<in> {ValidationFilter_process, AuthFilter_process users,
               TransformFilter_process rates, FeeFilter_process rates',
               StorageFilter_process db_path}
      \<and> f w = Return w'
    \<longrightarrow> ctx w' ''transaction'' = Some (TransactionRef a))
 \<and> (set fs \<subseteq> {ValidationFilter_process, AuthFilter_process users,
                TransformFilter_process rates, FeeFilter_process rates',
                StorageFilter_process db_path}
      \<and> Pipeline_run fs w0 t = Return w0'
    \<longrightarrow> ctx w0' ''transaction'' = Some (TransactionRef t))"
proof (intro conjI impI)
  assume "ctx w ''transaction'' = Some (TransactionRef a)
      \<and> f \<in> {ValidationFilter_process, AuthFilter_process users,
               TransformFilter_process rates, FeeFilter_process rates',
               StorageFilter_process db_path}
      \<and> f w = Return w'"
  then show "ctx w' ''transaction'' = Some (TransactionRef a)"
    using stage_keeps_transaction by blast
next
  assume h: "set fs \<subseteq> {ValidationFilter_process, AuthFilter_process users,
                TransformFilter_process rates, FeeFilter_process rates',
                StorageFilter_process db_path}
      \<and> Pipeline_run fs w0 t = Return w0'"
  then have "run_filters fs (new_context w0 t) = Return w0'"
    by (simp add: Pipeline_run_def)
  moreover have "ctx (new_context w0 t) ''transaction'' = Some (TransactionRef t)"
    by (simp add: new_context_simps)
  ultimately show "ctx w0' ''transaction'' = Some (TransactionRef t)"
    using h run_filters_keeps_transaction by blast
qed

theorem transaction_key_kept_witness:
  "(\<exists>w'. AuthFilter_process load_mock_users
           (new_context (example_world
              (new_Transaction 1000 2000 ''u001'' (float_literal (1 / 100)) ''USD'')) 0) = Return w'
        \<and> ctx w' ''transaction'' = Some (TransactionRef 0))
 \<and> (\<exists>w'. Pipeline_run main_pipeline
           (example_world (new_Transaction 1000 2000 ''u001'' (float_literal (1 / 100)) ''USD'')) 0
          = Return w'
        \<and> ctx w' ''transaction'' = Some (TransactionRef 0))"
proof -
  let ?w = "example_world (new_Transaction 1000 2000 ''u001'' (float_literal (1 / 100)) ''USD'')"
  have c: "ctx (new_context ?w 0) ''transaction'' = Some (TransactionRef 0)"
    by (simp add: new_context_simps)
  have m: "AuthFilter_process load_mock_users
             \<in> {ValidationFilter_process, AuthFilter_process load_mock_users,
                 TransformFilter_process FixedRateProvider, FeeFilter_process FixedRateProvider,
                 StorageFilter_process ''transactions.db''}"
    by simp
  have s: "set main_pipeline
             \<subseteq> {ValidationFilter_process, AuthFilter_process load_mock_users,
                 TransformFilter_process FixedRateProvider, FeeFilter_process FixedRateProvider,
                 StorageFilter_process ''transactions.db''}"
    by (simp add: main_pipeline_def)
  obtain w1 where a: "AuthFilter_process load_mock_users (new_context ?w 0) = Return w1"
    by (simp add: AuthFilter_process_def context_transaction_def new_context_simps
          example_world_simps new_Transaction_def load_mock_users_lookups)
  from scenario_A_run [of ?w 0 1000 2000] obtain w2 where
    r: "Pipeline_run main_pipeline ?w 0 = Return w2"
    by (auto simp: example_world_simps)
  from transaction_key_kept
         [of "new_context ?w 0" 0 "AuthFilter_process load_mock_users" load_mock_users
             FixedRateProvider FixedRateProvider "''transactions.db''" w1 main_pipeline ?w 0 w2]
       c m s a r
  show ?thesis by blast
qed

text \<open>
  C9. When the Validation stage returns, the base currency is in both tables of the
  fixed rate provider: its two lookups return, the Conversion stage does not raise
  \<^verbatim>\<open>TransformError\<close>, and the only failure the Fee stage can raise is the one for a
  missing subtotal. In the five-stage pipeline with the fixed rate provider no run
  raises \<^verbatim>\<open>TransformError\<close> at all.
\<close>

theorem validated_currency_supported:
  "(ctx w ''transaction'' = Some (TransactionRef a) \<and> ValidationFilter_process w = Return w'
    \<longrightarrow> (\<exists>price. get_btc_price FixedRateProvider (base_currency (heap w a)) = Inr price)
      \<and> (\<exists>fx. usd_to FixedRateProvider (base_currency (heap w a)) = Inr fx)
      \<and> (\<forall>m w''. TransformFilter_process FixedRateProvider w' \<noteq> Raise (TransformError m) w'')
      \<and> (\<forall>e w''. FeeFilter_process FixedRateProvider w' = Raise e w'' \<longrightarrow>
            e = TransformError ''Falta subtotal_base; ejecute TransformFilter antes.''))
 \<and> (\<forall>m w''. Pipeline_run
        [ValidationFilter_process, AuthFilter_process users,
         TransformFilter_process FixedRateProvider, FeeFilter_process FixedRateProvider,
         StorageFilter_process db_path] w0 t \<noteq> Raise (TransformError m) w'')"
proof (intro conjI impI allI)
  assume h: "ctx w ''transaction'' = Some (TransactionRef a) \<and> ValidationFilter_process w = Return w'"
  then have c: "ctx w ''transaction'' = Some (TransactionRef a)"
    and v: "ValidationFilter_process w = Return w'" by simp_all
  have w': "w' = w" using v by (rule ValidationFilter_Return)
  from ValidationFilter_Return_valid [OF v c]
  have cur: "base_currency (heap w a) \<in> {''USD'', ''EUR'', ''GBP''}" by simp
  from FixedRateProvider_supported [OF cur]
  show "\<exists>price. get_btc_price FixedRateProvider (base_currency (heap w a)) = Inr price"
    and "\<exists>fx. usd_to FixedRateProvider (base_currency (heap w a)) = Inr fx"
    by blast+
  show "TransformFilter_process FixedRateProvider w' \<noteq> Raise (TransformError m) w''" for m w''
    using TransformFilter_Fixed_no_TransformError [OF c cur] w' by simp
  show "e = TransformError ''Falta subtotal_base; ejecute TransformFilter antes.''"
    if "FeeFilter_process FixedRateProvider w' = Raise e w''" for e w''
    using FeeFilter_Fixed_Raise [OF c cur] that w' by simp
next
  show "Pipeline_run
        [ValidationFilter_process, AuthFilter_process users,
         TransformFilter_process FixedRateProvider, FeeFilter_process FixedRateProvider,
         StorageFilter_process db_path] w0 t \<noteq> Raise (TransformError m) w''" for m w''
    by (rule main_shape_no_TransformError)
qed

theorem validated_currency_supported_witness:
  "ValidationFilter_process
     (new_context (example_world
        (new_Transaction 1000 2000 ''u002'' (float_literal (5 / 100)) ''EUR'')) 0)
     = Return (new_context (example_world
        (new_Transaction 1000 2000 ''u002'' (float_literal (5 / 100)) ''EUR'')) 0)
 \<and> get_btc_price FixedRateProvider ''EUR'' = Inr (float_literal 61000)
 \<and> usd_to FixedRateProvider ''EUR'' = Inr (float_literal (93 / 100))
 \<and> (\<forall>m w''. TransformFilter_process FixedRateProvider
        (new_context (example_world
           (new_Transaction 1000 2000 ''u002'' (float_literal (5 / 100)) ''EUR'')) 0)
        \<noteq> Raise (TransformError m) w'')
 \<and> (\<forall>m w''. Pipeline_run main_pipeline
        (example_world (new_Transaction 1000 2000 ''u002'' (float_literal (5 / 100)) ''EUR'')) 0
        \<noteq> Raise (TransformError m) w'')"
proof -
  let ?w = "new_context (example_world (new_Transaction 1000 2000 ''u002'' (float_literal (5 / 100)) ''EUR'')) 0"
  have c: "ctx ?w ''transaction'' = Some (TransactionRef 0)"
    by (simp add: new_context_simps)
  have v: "ValidationFilter_process ?w = Return ?w"
    using float_scenario_B(4)
    by (simp add: ValidationFilter_process_def context_transaction_def new_context_simps
          example_world_simps new_Transaction_def)
  from validated_currency_supported
         [of ?w 0 ?w load_mock_users "''transactions.db''"
             "example_world (new_Transaction 1000 2000 ''u002'' (float_literal (5 / 100)) ''EUR'')" 0]
       c v
  show ?thesis
    by (simp add: main_pipeline_def FixedRateProvider_lookups)
qed

text \<open>
  C10. For a dictionary holding a transaction with a supported base currency, the
  Conversion stage with the fixed rate provider returns, and running it again on the
  result returns the same result: same dictionary, same price and subtotal.
\<close>

theorem TransformFilter_idempotent:
  assumes "ctx w ''transaction'' = Some (TransactionRef a)"
      and "base_currency (heap w a) \<in> {''USD'', ''EUR'', ''GBP''}"
  shows "\<exists>w1. TransformFilter_process FixedRateProvider w = Return w1
            \<and> TransformFilter_process FixedRateProvider w1 = Return w1"
proof -
  from FixedRateProvider_supported [OF assms(2)] obtain price where
    "get_btc_price FixedRateProvider (base_currency (heap w a)) = Inr price" by blast
  with assms(1) obtain w1 where r: "TransformFilter_process FixedRateProvider w = Return w1"
    by (simp add: TransformFilter_process_def context_transaction_def Let_def)
  from r TransformFilter_twice [OF r] show ?thesis by blast
qed

theorem TransformFilter_idempotent_witness:
  "\<exists>w1. TransformFilter_process FixedRateProvider
           (new_context (example_world
              (new_Transaction 1000 2000 ''u001'' (float_literal (1 / 100)) ''USD'')) 0) = Return w1
      \<and> TransformFilter_process FixedRateProvider w1 = Return w1"
proof -
  let ?w = "new_context (example_world (new_Transaction 1000 2000 ''u001'' (float_literal (1 / 100)) ''USD'')) 0"
  have c: "ctx ?w ''transaction'' = Some (TransactionRef 0)"
    by (simp add: new_context_simps)
  have b: "base_currency (heap ?w 0) \<in> {''USD'', ''EUR'', ''GBP''}"
    by (simp add: new_context_simps example_world_simps new_Transaction_def)
  from TransformFilter_idempotent [OF c b] show ?thesis .
qed

end
